theory Spec2Isabelle
  imports Main "HOL-Library.Word"
begin

unbundle bit_operations_syntax

section \<open>Dimension vectors (unit.go)\<close>

text \<open>
  \<^verbatim>\<open>type uComponent int8\<close> and \<^verbatim>\<open>type uPoint [numDim]uComponent\<close>: a fixed array of
  eight signed bytes, compared componentwise by Go's \<^verbatim>\<open>==\<close>.  Arithmetic on the components
  is Go's \<^verbatim>\<open>int8\<close> arithmetic, which wraps around.
\<close>

type_synonym uComponent = "8 word"

definition currentDim :: nat where "currentDim = 0"
definition intensityDim :: nat where "intensityDim = 1"
definition lengthDim :: nat where "lengthDim = 2"
definition massDim :: nat where "massDim = 3"
definition amountDim :: nat where "amountDim = 4"
definition timeDim :: nat where "timeDim = 5"
definition temperatureDim :: nat where "temperatureDim = 6"
definition temperatureCDim :: nat where "temperatureCDim = 7"
definition numDim :: nat where "numDim = 8"

datatype uPoint =
  UPoint uComponent uComponent uComponent uComponent uComponent uComponent uComponent uComponent

text \<open>\<^verbatim>\<open>a[idx]\<close> and \<^verbatim>\<open>a[idx] = v\<close>.  Every index of the source ranges over the array
  itself or is one of the eight constants above; an index from \<open>numDim\<close> on does not occur
  (reading gives 0 and writing changes nothing here).\<close>

fun pt_get :: "uPoint \<Rightarrow> nat \<Rightarrow> uComponent" where
  "pt_get (UPoint a b c d e f g h) i =
     (if i = 0 then a else if i = 1 then b else if i = 2 then c else if i = 3 then d
      else if i = 4 then e else if i = 5 then f else if i = 6 then g else if i = 7 then h
      else 0)"

fun pt_set :: "uPoint \<Rightarrow> nat \<Rightarrow> uComponent \<Rightarrow> uPoint" where
  "pt_set (UPoint a b c d e f g h) i v =
     (if i = 0 then UPoint v b c d e f g h else if i = 1 then UPoint a v c d e f g h
      else if i = 2 then UPoint a b v d e f g h else if i = 3 then UPoint a b c v e f g h
      else if i = 4 then UPoint a b c d v f g h else if i = 5 then UPoint a b c d e v g h
      else if i = 6 then UPoint a b c d e f v h else if i = 7 then UPoint a b c d e f g v
      else UPoint a b c d e f g h)"

text \<open>The zero value of the array type (\<^verbatim>\<open>var newDim uPoint\<close>).\<close>

definition zeroPoint :: uPoint where
  "zeroPoint = UPoint 0 0 0 0 0 0 0 0"

text \<open>The componentwise operations the specification speaks of, written without loops;
  the loops of the source are compared with them below.\<close>

fun pt_add :: "uPoint \<Rightarrow> uPoint \<Rightarrow> uPoint" where
  "pt_add (UPoint a b c d e f g h) (UPoint a' b' c' d' e' f' g' h') =
     UPoint (a + a') (b + b') (c + c') (d + d') (e + e') (f + f') (g + g') (h + h')"

fun pt_neg :: "uPoint \<Rightarrow> uPoint" where
  "pt_neg (UPoint a b c d e f g h) = UPoint (- a) (- b) (- c) (- d) (- e) (- f) (- g) (- h)"

fun pt_scale :: "uComponent \<Rightarrow> uPoint \<Rightarrow> uPoint" where
  "pt_scale k (UPoint a b c d e f g h) =
     UPoint (k * a) (k * b) (k * c) (k * d) (k * e) (k * f) (k * g) (k * h)"

section \<open>Parsed units (unit.go)\<close>

text \<open>
  \<^verbatim>\<open>type pUnit struct { Dim uPoint; DimLess []uPoint; Scale int }\<close>.  \<open>Scale\<close> is a Go
  \<^verbatim>\<open>int\<close>, taken at its 64-bit width.  Parsed units are reached through pointers in the
  source, but no function writes through such a pointer (each operation builds a new
  struct), so they are values here.
\<close>

record pUnit =
  Dim :: uPoint
  DimLess :: "uPoint list"
  Scale :: "64 word"

text \<open>\<^verbatim>\<open>&pUnit{}\<close>: the value of \<^verbatim>\<open>theZero\<close> and of \<^verbatim>\<open>zeroValue.unit\<close>.\<close>

definition theZero :: pUnit where
  "theZero = \<lparr>Dim = zeroPoint, DimLess = [], Scale = 0\<rparr>"

text \<open>\<^verbatim>\<open>for idx, v := range dim { newDim[idx] += v }\<close>\<close>

definition addInto :: "uPoint \<Rightarrow> uPoint \<Rightarrow> uPoint" where
  "addInto newDim dim =
     fold (\<lambda>idx r. pt_set r idx (pt_get r idx + pt_get dim idx)) [0..<numDim] newDim"

definition pUnit_product :: "pUnit \<Rightarrow> uPoint" where
  "pUnit_product a = fold (\<lambda>dim newDim. addInto newDim dim) (DimLess a @ [Dim a]) zeroPoint"

definition pUnit_Multiply :: "pUnit \<Rightarrow> pUnit \<Rightarrow> pUnit" where
  "pUnit_Multiply a b =
     (let r = addInto (pUnit_product a) (pUnit_product b)
      in \<lparr>Dim = r, DimLess = [], Scale = Scale a + Scale b\<rparr>)"

text \<open>\<^verbatim>\<open>for idx, v := range r { r[idx] = -v }\<close>: the range expression is an array, so
  \<open>v\<close> is read from a copy of \<open>r\<close> taken before the loop.\<close>

definition pUnit_Reciprocal :: "pUnit \<Rightarrow> pUnit" where
  "pUnit_Reciprocal a =
     (let r0 = pUnit_product a;
          r = fold (\<lambda>idx r. pt_set r idx (- pt_get r0 idx)) [0..<numDim] r0
      in \<lparr>Dim = r, DimLess = [], Scale = - Scale a\<rparr>)"

text \<open>\<^verbatim>\<open>Scale: int(e) * a.Scale\<close>: the exponent is sign-extended to \<^verbatim>\<open>int\<close>.\<close>

definition pUnit_Exp :: "pUnit \<Rightarrow> uComponent \<Rightarrow> pUnit" where
  "pUnit_Exp a e =
     (let r0 = pUnit_product a;
          r = fold (\<lambda>idx r. pt_set r idx (e * pt_get r0 idx)) [0..<numDim] r0
      in \<lparr>Dim = r, DimLess = [], Scale = scast e * Scale a\<rparr>)"

section \<open>Symbol and prefix tables (init.go)\<close>

text \<open>
  Go strings are byte sequences: \<open>string\<close> here, with \<^verbatim>\<open>len\<close> the number of bytes and
  \<^verbatim>\<open><\<close> the bytewise lexicographic order.  The keys outside ASCII are written by their
  UTF-8 bytes.
\<close>

fun strLess :: "string \<Rightarrow> string \<Rightarrow> bool" where
  "strLess [] [] = False"
| "strLess [] (y # ys) = True"
| "strLess (x # xs) [] = False"
| "strLess (x # xs) (y # ys) =
     (if (of_char x :: nat) < of_char y then True
      else if (of_char y :: nat) < of_char x then False
      else strLess xs ys)"

text \<open>\<^verbatim>\<open>longLess\<close>: longer strings before shorter ones, equal lengths in ascending order.\<close>

definition longLess :: "string \<Rightarrow> string \<Rightarrow> bool" where
  "longLess a b = (if length a = length b then strLess a b else length a > length b)"

text \<open>\<^verbatim>\<open>keyedUnitSlice.Less\<close> and \<^verbatim>\<open>keyedScaleSlice.Less\<close>; a table entry
  \<^verbatim>\<open>{Key, Unit}\<close> or \<^verbatim>\<open>{Key, Scale}\<close> is a pair.\<close>

definition keyLess :: "string \<times> 'a \<Rightarrow> string \<times> 'a \<Rightarrow> bool" where
  "keyLess a b = longLess (fst a) (fst b)"

text \<open>
  \<^verbatim>\<open>sort.Sort\<close> is the library's sort by \<^verbatim>\<open>Less\<close>, written here as an insertion sort.
  The keys of each table are pairwise different and \<open>longLess\<close> orders different strings
  strictly, so the sorted slice does not depend on the algorithm.
\<close>

fun insertLess :: "('a \<Rightarrow> 'a \<Rightarrow> bool) \<Rightarrow> 'a \<Rightarrow> 'a list \<Rightarrow> 'a list" where
  "insertLess lt x [] = [x]"
| "insertLess lt x (y # ys) = (if lt x y then x # y # ys else y # insertLess lt x ys)"

definition sort_Sort :: "('a \<Rightarrow> 'a \<Rightarrow> bool) \<Rightarrow> 'a list \<Rightarrow> 'a list" where
  "sort_Sort lt xs = foldr (insertLess lt) xs []"

text \<open>The loop over \<^verbatim>\<open>seen\<close> that rejects a repeated key.\<close>

datatype configError = DuplicateKey string

fun checkDuplicates :: "(string \<times> 'a) list \<Rightarrow> string list \<Rightarrow> configError option" where
  "checkDuplicates [] seen = None"
| "checkDuplicates ((k, v) # r) seen =
     (if k \<in> set seen then Some (DuplicateKey k) else checkDuplicates r (k # seen))"

definition str_mu :: string where "str_mu = [CHR 0xCE, CHR 0xBC]"
definition str_Omega :: string where "str_Omega = [CHR 0xCE, CHR 0xA9]"
definition str_degC :: string where "str_degC = [CHR 0xC2, CHR 0xB0, CHR ''C'']"
definition str_celsius :: string where "str_celsius = [CHR 0xE2, CHR 0x84, CHR 0x83]"

definition makeScales :: "configError + (string \<times> 64 word) list" where
  "makeScales =
    (let r = [(''da'', 1), (''h'', 2), (''k'', 3), (''M'', 6), (''G'', 9), (''T'', 12),
              (''P'', 15), (''E'', 18), (''Z'', 21), (''Y'', 24),
              (''d'', - 1), (''c'', - 2), (''m'', - 3), (str_mu, - 6), (''u'', - 6),
              (''n'', - 9), (''p'', - 12), (''f'', - 15), (''a'', - 18), (''z'', - 21),
              (''y'', - 24)]
     in case checkDuplicates r [] of
          Some e \<Rightarrow> Inl e
        | None \<Rightarrow> Inr (sort_Sort keyLess r))"

text \<open>\<^verbatim>\<open>mkpoint\<close>: the array with the listed exponents; the dimensions of one literal are
  pairwise different, so the order in which Go walks the map does not matter.\<close>

definition mkpoint :: "(nat \<times> uComponent) list \<Rightarrow> uPoint" where
  "mkpoint m = fold (\<lambda>(d, e) a. pt_set a d e) m zeroPoint"

definition makeUnits :: "configError + (string \<times> pUnit) list" where
  "makeUnits =
    (let r = [
       (''m'', \<lparr>Dim = mkpoint [(lengthDim, 1)], DimLess = [], Scale = 0\<rparr>),
       (''g'', \<lparr>Dim = mkpoint [(massDim, 1)], DimLess = [], Scale = 0\<rparr>),
       (''s'', \<lparr>Dim = mkpoint [(timeDim, 1)], DimLess = [], Scale = 0\<rparr>),
       (''A'', \<lparr>Dim = mkpoint [(currentDim, 1)], DimLess = [], Scale = 0\<rparr>),
       (''K'', \<lparr>Dim = mkpoint [(temperatureDim, 1)], DimLess = [], Scale = 0\<rparr>),
       (''mol'', \<lparr>Dim = mkpoint [(amountDim, 1)], DimLess = [], Scale = 0\<rparr>),
       (''cd'', \<lparr>Dim = mkpoint [(intensityDim, 1)], DimLess = [], Scale = 0\<rparr>),
       (''rad'', \<lparr>Dim = zeroPoint,
                 DimLess = [mkpoint [(lengthDim, 1)], mkpoint [(lengthDim, - 1)]], Scale = 0\<rparr>),
       (''sr'', \<lparr>Dim = zeroPoint,
                DimLess = [mkpoint [(lengthDim, 2)], mkpoint [(lengthDim, - 2)]], Scale = 0\<rparr>),
       (''Hz'', \<lparr>Dim = mkpoint [(timeDim, - 1)], DimLess = [], Scale = 0\<rparr>),
       (''N'', \<lparr>Dim = mkpoint [(massDim, 1), (timeDim, - 2), (lengthDim, 1)],
               DimLess = [], Scale = 3\<rparr>),
       (''Pa'', \<lparr>Dim = mkpoint [(massDim, 1), (lengthDim, - 1), (timeDim, - 2)],
                DimLess = [], Scale = 3\<rparr>),
       (''J'', \<lparr>Dim = mkpoint [(massDim, 1), (lengthDim, 2), (timeDim, - 2)],
               DimLess = [], Scale = 3\<rparr>),
       (''W'', \<lparr>Dim = mkpoint [(massDim, 1), (lengthDim, 2), (timeDim, - 3)],
               DimLess = [], Scale = 3\<rparr>),
       (''C'', \<lparr>Dim = mkpoint [(timeDim, 1), (currentDim, 1)], DimLess = [], Scale = 0\<rparr>),
       (''V'', \<lparr>Dim = mkpoint [(massDim, 1), (lengthDim, 2), (timeDim, - 3), (currentDim, - 1)],
               DimLess = [], Scale = 3\<rparr>),
       (''F'', \<lparr>Dim = mkpoint [(massDim, - 1), (lengthDim, - 2), (timeDim, 4), (currentDim, 2)],
               DimLess = [], Scale = - 3\<rparr>),
       (str_Omega,
          \<lparr>Dim = mkpoint [(massDim, 1), (lengthDim, 2), (timeDim, - 3), (currentDim, - 2)],
           DimLess = [], Scale = 3\<rparr>),
       (''S'', \<lparr>Dim = mkpoint [(massDim, - 1), (lengthDim, - 2), (timeDim, 3), (currentDim, 2)],
               DimLess = [], Scale = - 3\<rparr>),
       (''Wb'', \<lparr>Dim = mkpoint [(massDim, 1), (lengthDim, 2), (timeDim, - 2), (currentDim, - 1)],
                DimLess = [], Scale = 3\<rparr>),
       (''T'', \<lparr>Dim = mkpoint [(massDim, 1), (timeDim, - 2), (currentDim, - 1)],
               DimLess = [], Scale = 3\<rparr>),
       (''H'', \<lparr>Dim = mkpoint [(massDim, 1), (lengthDim, 2), (timeDim, - 2), (currentDim, - 2)],
               DimLess = [], Scale = 3\<rparr>),
       (str_degC, \<lparr>Dim = mkpoint [(temperatureCDim, 1)], DimLess = [], Scale = 0\<rparr>),
       (str_celsius, \<lparr>Dim = mkpoint [(temperatureCDim, 1)], DimLess = [], Scale = 0\<rparr>),
       (''lm'', \<lparr>Dim = mkpoint [(intensityDim, 1)],
                DimLess = [mkpoint [(lengthDim, 2)], mkpoint [(lengthDim, - 2)]], Scale = 0\<rparr>),
       (''lx'', \<lparr>Dim = mkpoint [(lengthDim, - 2), (intensityDim, 1)], DimLess = [], Scale = 0\<rparr>),
       (''Bq'', \<lparr>Dim = mkpoint [(timeDim, - 1)], DimLess = [], Scale = 0\<rparr>),
       (''Gy'', \<lparr>Dim = mkpoint [(lengthDim, 2), (timeDim, - 2)], DimLess = [], Scale = 0\<rparr>),
       (''Sv'', \<lparr>Dim = mkpoint [(lengthDim, 2), (timeDim, - 2)], DimLess = [], Scale = 0\<rparr>),
       (''kat'', \<lparr>Dim = mkpoint [(amountDim, 1), (timeDim, - 1)], DimLess = [], Scale = 0\<rparr>),
       (''l'', \<lparr>Dim = mkpoint [(lengthDim, 3)], DimLess = [], Scale = - 3\<rparr>),
       (''L'', \<lparr>Dim = mkpoint [(lengthDim, 3)], DimLess = [], Scale = - 3\<rparr>),
       (''Da'', \<lparr>Dim = mkpoint [(massDim, 1), (amountDim, - 1)], DimLess = [], Scale = 0\<rparr>)]
     in case checkDuplicates r [] of
          Some e \<Rightarrow> Inl e
        | None \<Rightarrow> Inr (sort_Sort keyLess r))"


text \<open>\<^verbatim>\<open>init\<close> panics when a table cannot be built; \<open>makeScales\<close> and \<open>makeUnits\<close>
  succeed (lemmas \<open>defaultScales_eq\<close> and \<open>defaultUnits_eq\<close> below give the tables), so the
  error branch is never taken.\<close>

definition defaultScales :: "(string \<times> 64 word) list" where
  "defaultScales = (case makeScales of Inr r \<Rightarrow> r | Inl e \<Rightarrow> [])"

definition defaultUnits :: "(string \<times> pUnit) list" where
  "defaultUnits = (case makeUnits of Inr r \<Rightarrow> r | Inl e \<Rightarrow> [])"

lemmas table_defs = sort_Sort_def keyLess_def longLess_def str_mu_def str_Omega_def
  str_degC_def str_celsius_def mkpoint_def zeroPoint_def currentDim_def intensityDim_def
  lengthDim_def massDim_def amountDim_def timeDim_def temperatureDim_def temperatureCDim_def

lemma defaultScales_eq:
  "defaultScales =
     [(''da'', 1), (str_mu, - 6), (''E'', 18), (''G'', 9), (''M'', 6), (''P'', 15), (''T'', 12),
      (''Y'', 24), (''Z'', 21), (''a'', - 18), (''c'', - 2), (''d'', - 1), (''f'', - 15),
      (''h'', 2), (''k'', 3), (''m'', - 3), (''n'', - 9), (''p'', - 12), (''u'', - 6),
      (''y'', - 24), (''z'', - 21)]"
  by (simp add: defaultScales_def makeScales_def table_defs)

lemma defaultUnits_eq:
  "defaultUnits =
    [(''kat'', \<lparr>Dim = UPoint 0 0 0 0 1 (- 1) 0 0, DimLess = [], Scale = 0\<rparr>),
     (''mol'', \<lparr>Dim = UPoint 0 0 0 0 1 0 0 0, DimLess = [], Scale = 0\<rparr>),
     (''rad'', \<lparr>Dim = UPoint 0 0 0 0 0 0 0 0,
        DimLess = [UPoint 0 0 1 0 0 0 0 0, UPoint 0 0 (- 1) 0 0 0 0 0], Scale = 0\<rparr>),
     (str_degC, \<lparr>Dim = UPoint 0 0 0 0 0 0 0 1, DimLess = [], Scale = 0\<rparr>),
     (str_celsius, \<lparr>Dim = UPoint 0 0 0 0 0 0 0 1, DimLess = [], Scale = 0\<rparr>),
     (''Bq'', \<lparr>Dim = UPoint 0 0 0 0 0 (- 1) 0 0, DimLess = [], Scale = 0\<rparr>),
     (''Da'', \<lparr>Dim = UPoint 0 0 0 1 (- 1) 0 0 0, DimLess = [], Scale = 0\<rparr>),
     (''Gy'', \<lparr>Dim = UPoint 0 0 2 0 0 (- 2) 0 0, DimLess = [], Scale = 0\<rparr>),
     (''Hz'', \<lparr>Dim = UPoint 0 0 0 0 0 (- 1) 0 0, DimLess = [], Scale = 0\<rparr>),
     (''Pa'', \<lparr>Dim = UPoint 0 0 (- 1) 1 0 (- 2) 0 0, DimLess = [], Scale = 3\<rparr>),
     (''Sv'', \<lparr>Dim = UPoint 0 0 2 0 0 (- 2) 0 0, DimLess = [], Scale = 0\<rparr>),
     (''Wb'', \<lparr>Dim = UPoint (- 1) 0 2 1 0 (- 2) 0 0, DimLess = [], Scale = 3\<rparr>),
     (''cd'', \<lparr>Dim = UPoint 0 1 0 0 0 0 0 0, DimLess = [], Scale = 0\<rparr>),
     (''lm'', \<lparr>Dim = UPoint 0 1 0 0 0 0 0 0,
        DimLess = [UPoint 0 0 2 0 0 0 0 0, UPoint 0 0 (- 2) 0 0 0 0 0], Scale = 0\<rparr>),
     (''lx'', \<lparr>Dim = UPoint 0 1 (- 2) 0 0 0 0 0, DimLess = [], Scale = 0\<rparr>),
     (''sr'', \<lparr>Dim = UPoint 0 0 0 0 0 0 0 0,
        DimLess = [UPoint 0 0 2 0 0 0 0 0, UPoint 0 0 (- 2) 0 0 0 0 0], Scale = 0\<rparr>),
     (str_Omega, \<lparr>Dim = UPoint (- 2) 0 2 1 0 (- 3) 0 0, DimLess = [], Scale = 3\<rparr>),
     (''A'', \<lparr>Dim = UPoint 1 0 0 0 0 0 0 0, DimLess = [], Scale = 0\<rparr>),
     (''C'', \<lparr>Dim = UPoint 1 0 0 0 0 1 0 0, DimLess = [], Scale = 0\<rparr>),
     (''F'', \<lparr>Dim = UPoint 2 0 (- 2) (- 1) 0 4 0 0, DimLess = [], Scale = - 3\<rparr>),
     (''H'', \<lparr>Dim = UPoint (- 2) 0 2 1 0 (- 2) 0 0, DimLess = [], Scale = 3\<rparr>),
     (''J'', \<lparr>Dim = UPoint 0 0 2 1 0 (- 2) 0 0, DimLess = [], Scale = 3\<rparr>),
     (''K'', \<lparr>Dim = UPoint 0 0 0 0 0 0 1 0, DimLess = [], Scale = 0\<rparr>),
     (''L'', \<lparr>Dim = UPoint 0 0 3 0 0 0 0 0, DimLess = [], Scale = - 3\<rparr>),
     (''N'', \<lparr>Dim = UPoint 0 0 1 1 0 (- 2) 0 0, DimLess = [], Scale = 3\<rparr>),
     (''S'', \<lparr>Dim = UPoint 2 0 (- 2) (- 1) 0 3 0 0, DimLess = [], Scale = - 3\<rparr>),
     (''T'', \<lparr>Dim = UPoint (- 1) 0 0 1 0 (- 2) 0 0, DimLess = [], Scale = 3\<rparr>),
     (''V'', \<lparr>Dim = UPoint (- 1) 0 2 1 0 (- 3) 0 0, DimLess = [], Scale = 3\<rparr>),
     (''W'', \<lparr>Dim = UPoint 0 0 2 1 0 (- 3) 0 0, DimLess = [], Scale = 3\<rparr>),
     (''g'', \<lparr>Dim = UPoint 0 0 0 1 0 0 0 0, DimLess = [], Scale = 0\<rparr>),
     (''l'', \<lparr>Dim = UPoint 0 0 3 0 0 0 0 0, DimLess = [], Scale = - 3\<rparr>),
     (''m'', \<lparr>Dim = UPoint 0 0 1 0 0 0 0 0, DimLess = [], Scale = 0\<rparr>),
     (''s'', \<lparr>Dim = UPoint 0 0 0 0 0 1 0 0, DimLess = [], Scale = 0\<rparr>)]"
  by (simp add: defaultUnits_def makeUnits_def table_defs)


lemma firstKeys_nonempty:
  "ks \<in> set defaultUnits \<Longrightarrow> fst ks \<noteq> []" "ks' \<in> set defaultScales \<Longrightarrow> fst ks' \<noteq> []"
  by (auto simp add: defaultUnits_eq defaultScales_eq table_defs)

section \<open>float64\<close>

text \<open>
  A quantity is a Go \<^verbatim>\<open>float64\<close>, an IEEE 754 binary64 number.  \<open>Finite s m e\<close> is the
  number \<^verbatim>\<open>(-1)^s * m * 2^e\<close> and \<open>Infinity s\<close> the infinity of sign \<open>s\<close>.  The numbers the
  arithmetic produces are in canonical form: \<^verbatim>\<open>m < 2^53\<close>, and either \<^verbatim>\<open>2^52 <= m\<close> with
  \<^verbatim>\<open>-1074 <= e <= 971\<close> (normal), or \<^verbatim>\<open>e = -1074\<close> (subnormal), or \<^verbatim>\<open>m = 0\<close> and
  \<^verbatim>\<open>e = 0\<close> (zero).  \<^verbatim>\<open>*\<close> and \<^verbatim>\<open>/\<close> compute the exact result and round it once, to
  nearest, ties to even.
\<close>

datatype float64 = Finite bool nat int | Infinity bool | NaN

text \<open>The number of binary digits of \<open>n\<close>.\<close>

fun bitlen :: "nat \<Rightarrow> nat" where
  "bitlen n = (if n = 0 then 0 else Suc (bitlen (n div 2)))"

declare bitlen.simps [simp del]

text \<open>
  \<open>roundF64 s p q\<close> rounds the quotient \<^verbatim>\<open>p / q\<close> (with \<open>0 < q\<close>) and gives it the sign
  \<open>s\<close>: \<open>fl\<close> is the integer part of the binary logarithm of \<^verbatim>\<open>p / q\<close>, \<open>e\<close> the exponent
  of the last place (not below that of the subnormals), \<open>m\<close> the quotient by \<^verbatim>\<open>2^e\<close>
  rounded to nearest-even; a significand that reaches \<^verbatim>\<open>2^53\<close> moves to the next
  exponent, and an exponent above 971 overflows to infinity.
\<close>

definition roundF64 :: "bool \<Rightarrow> nat \<Rightarrow> nat \<Rightarrow> float64" where
  "roundF64 s p q =
     (if p = 0 then Finite s 0 0
      else
        let k = int (bitlen p) - int (bitlen q);
            fl = (if q * 2 ^ nat k \<le> p * 2 ^ nat (- k) then k else k - 1);
            e = max (fl - 52) (- 1074);
            num = p * 2 ^ nat (- e);
            den = q * 2 ^ nat e;
            d = num div den;
            r = num mod den;
            m = (if 2 * r < den then d else if den < 2 * r then d + 1
                 else if even d then d else d + 1)
        in if m = 0 then Finite s 0 0
           else if m = 2 ^ 53 then (if e + 1 > 971 then Infinity s else Finite s (2 ^ 52) (e + 1))
           else if e > 971 then Infinity s
           else Finite s m e)"

fun f64_mul :: "float64 \<Rightarrow> float64 \<Rightarrow> float64" where
  "f64_mul NaN y = NaN"
| "f64_mul x NaN = NaN"
| "f64_mul (Infinity s) (Infinity t) = Infinity (s \<noteq> t)"
| "f64_mul (Infinity s) (Finite t n f) = (if n = 0 then NaN else Infinity (s \<noteq> t))"
| "f64_mul (Finite s m e) (Infinity t) = (if m = 0 then NaN else Infinity (s \<noteq> t))"
| "f64_mul (Finite s m e) (Finite t n f) =
     roundF64 (s \<noteq> t) (m * n * 2 ^ nat (e + f)) (2 ^ nat (- (e + f)))"

fun f64_div :: "float64 \<Rightarrow> float64 \<Rightarrow> float64" where
  "f64_div NaN y = NaN"
| "f64_div x NaN = NaN"
| "f64_div (Infinity s) (Infinity t) = NaN"
| "f64_div (Infinity s) (Finite t n f) = Infinity (s \<noteq> t)"
| "f64_div (Finite s m e) (Infinity t) = Finite (s \<noteq> t) 0 0"
| "f64_div (Finite s m e) (Finite t n f) =
     (if n = 0 then (if m = 0 then NaN else Infinity (s \<noteq> t))
      else roundF64 (s \<noteq> t) (m * 2 ^ nat (e - f)) (n * 2 ^ nat (f - e)))"

text \<open>\<^verbatim>\<open>x == 0.0\<close> (true of both zeros, false of NaN) and \<^verbatim>\<open>math.IsInf(x, 0)\<close>.\<close>

fun f64_isZero :: "float64 \<Rightarrow> bool" where
  "f64_isZero (Finite s m e) = (m = 0)"
| "f64_isZero x = False"

fun f64_IsInf :: "float64 \<Rightarrow> bool" where
  "f64_IsInf (Infinity s) = True"
| "f64_IsInf x = False"

text \<open>The \<^verbatim>\<open>float64\<close> nearest to \<open>p / q\<close>, to write constants: \<open>f64 3 1\<close> is \<^verbatim>\<open>3.0\<close>.\<close>

definition f64 :: "nat \<Rightarrow> nat \<Rightarrow> float64" where
  "f64 p q = roundF64 False p q"

definition f64_zero :: float64 where "f64_zero = Finite False 0 0"
definition f64_one :: float64 where "f64_one = Finite False (2 ^ 52) (- 52)"

section \<open>What the program takes from Go's library\<close>

text \<open>
  Three library functions depend on the Go release the program is built with: the
  Unicode tables behind \<^verbatim>\<open>unicode.IsSpace\<close> and \<^verbatim>\<open>unicode.IsDigit\<close> above Latin-1, and
  \<^verbatim>\<open>math.Pow10\<close>.  They are parameters of the model.
\<close>

record goenv =
  White_Space :: "nat \<Rightarrow> bool"
  Digit :: "nat \<Rightarrow> bool"
  Pow10 :: "int \<Rightarrow> float64"

text \<open>
  \<^verbatim>\<open>math.Pow10\<close> as Go 1.10 and later compute it: from a table of the powers \<^verbatim>\<open>1e0\<close> to
  \<^verbatim>\<open>1e31\<close> and tables of \<^verbatim>\<open>1e32\<close>, \<^verbatim>\<open>1e64\<close>, ... and \<^verbatim>\<open>1e-32\<close>, \<^verbatim>\<open>1e-64\<close>, ..., whose
  entries are the nearest \<^verbatim>\<open>float64\<close>.
\<close>

definition math_Pow10 :: "int \<Rightarrow> float64" where
  "math_Pow10 n =
     (if 0 \<le> n \<and> n \<le> 308
        then f64_mul (f64 (10 ^ (32 * (nat n div 32))) 1) (f64 (10 ^ (nat n mod 32)) 1)
      else if - 323 \<le> n \<and> n \<le> 0
        then f64_div (f64 1 (10 ^ (32 * (nat (- n) div 32)))) (f64 (10 ^ (nat (- n) mod 32)) 1)
      else if 0 < n then Infinity False
      else Finite False 0 0)"


text \<open>
  An environment to evaluate the model in: \<^verbatim>\<open>White_Space\<close> above Latin-1, the decimal
  digits of the Basic Multilingual Plane above Latin-1, and \<open>math_Pow10\<close>.
\<close>

definition inRanges :: "(nat \<times> nat) list \<Rightarrow> nat \<Rightarrow> bool" where
  "inRanges rs r = list_ex (\<lambda>(lo, hi). lo \<le> r \<and> r \<le> hi) rs"

definition stdEnv :: goenv where
  "stdEnv =
     \<lparr>White_Space = inRanges [(0x1680, 0x1680), (0x2000, 0x200A), (0x2028, 0x2029),
                              (0x202F, 0x202F), (0x205F, 0x205F), (0x3000, 0x3000)],
      Digit = inRanges [(0x0660, 0x0669), (0x06F0, 0x06F9), (0x07C0, 0x07C9), (0x0966, 0x096F),
                        (0x09E6, 0x09EF), (0x0A66, 0x0A6F), (0x0AE6, 0x0AEF), (0x0B66, 0x0B6F),
                        (0x0BE6, 0x0BEF), (0x0C66, 0x0C6F), (0x0CE6, 0x0CEF), (0x0D66, 0x0D6F),
                        (0x0DE6, 0x0DEF), (0x0E50, 0x0E59), (0x0ED0, 0x0ED9), (0x0F20, 0x0F29),
                        (0x1040, 0x1049), (0x1090, 0x1099), (0x17E0, 0x17E9), (0x1810, 0x1819),
                        (0x1946, 0x194F), (0x19D0, 0x19D9), (0x1A80, 0x1A89), (0x1A90, 0x1A99),
                        (0x1B50, 0x1B59), (0x1BB0, 0x1BB9), (0x1C40, 0x1C49), (0x1C50, 0x1C59),
                        (0xA620, 0xA629), (0xA8D0, 0xA8D9), (0xA900, 0xA909), (0xA9D0, 0xA9D9),
                        (0xA9F0, 0xA9F9), (0xAA50, 0xAA59), (0xABF0, 0xABF9), (0xFF10, 0xFF19)],
      Pow10 = math_Pow10\<rparr>"

section \<open>UTF-8 and character classes\<close>

text \<open>
  \<^verbatim>\<open>utf8.DecodeRune\<close>: the first rune of \<open>p\<close> and its width in bytes; \<open>(RuneError, 0)\<close> for
  the empty slice and \<open>(RuneError, 1)\<close> for an invalid or incomplete encoding.  The first
  byte fixes the width and the range \<open>lo .. hi\<close> of the second byte (which excludes
  overlong forms, surrogates and values above \<open>U+10FFFF\<close>); every later byte lies in
  \<open>0x80 .. 0xBF\<close>.  Runes are natural numbers.
\<close>

definition RuneError :: nat where "RuneError = 0xFFFD"

definition byte :: "string \<Rightarrow> nat \<Rightarrow> nat" where
  "byte p i = of_char (p ! i)"

definition DecodeRune :: "string \<Rightarrow> nat \<times> nat" where
  "DecodeRune p =
     (if p = [] then (RuneError, 0)
      else
        let p0 = byte p 0 in
        if p0 < 0x80 then (p0, 1)
        else if p0 < 0xC2 \<or> 0xF5 \<le> p0 then (RuneError, 1)
        else
          let sz = (if p0 < 0xE0 then 2 else if p0 < 0xF0 then 3 else 4 :: nat);
              lo = (if p0 = 0xE0 then 0xA0 else if p0 = 0xF0 then 0x90 else 0x80);
              hi = (if p0 = 0xED then 0x9F else if p0 = 0xF4 then 0x8F else 0xBF)
          in
          if length p < sz then (RuneError, 1)
          else
            let b1 = byte p 1 in
            if b1 < lo \<or> hi < b1 then (RuneError, 1)
            else if sz \<le> 2 then ((p0 mod 0x20) * 0x40 + b1 mod 0x40, 2)
            else
              let b2 = byte p 2 in
              if b2 < 0x80 \<or> 0xBF < b2 then (RuneError, 1)
              else if sz \<le> 3
                then ((p0 mod 0x10) * 0x1000 + (b1 mod 0x40) * 0x40 + b2 mod 0x40, 3)
              else
                let b3 = byte p 3 in
                if b3 < 0x80 \<or> 0xBF < b3 then (RuneError, 1)
                else ((p0 mod 8) * 0x40000 + (b1 mod 0x40) * 0x1000
                        + (b2 mod 0x40) * 0x40 + b3 mod 0x40, 4))"

text \<open>\<^verbatim>\<open>unicode.IsSpace\<close> and \<^verbatim>\<open>unicode.IsDigit\<close>: fixed lists in Latin-1, the tables above it.\<close>

definition IsSpace :: "goenv \<Rightarrow> nat \<Rightarrow> bool" where
  "IsSpace E r =
     (if r \<le> 0xFF then r \<in> {0x09, 0x0A, 0x0B, 0x0C, 0x0D, 0x20, 0x85, 0xA0}
      else White_Space E r)"

definition IsDigit :: "goenv \<Rightarrow> nat \<Rightarrow> bool" where
  "IsDigit E r = (if r \<le> 0xFF then 0x30 \<le> r \<and> r \<le> 0x39 else Digit E r)"

lemma DecodeRune_width: "p \<noteq> [] \<Longrightarrow> 0 < snd (DecodeRune p)"
  by (simp add: DecodeRune_def Let_def)

lemma DecodeRune_width_le: "snd (DecodeRune p) \<le> length p"
  by (cases p) (auto simp add: DecodeRune_def Let_def Suc_le_eq)

text \<open>\<^verbatim>\<open>bytes.IndexFunc(s, f)\<close>, by the position \<open>start\<close> of its loop: the index of the first
  rune that satisfies \<open>f\<close>; \<open>None\<close> stands for \<^verbatim>\<open>-1\<close>.\<close>

function IndexFunc :: "(nat \<Rightarrow> bool) \<Rightarrow> string \<Rightarrow> nat \<Rightarrow> nat option" where
  "IndexFunc f s start =
     (if start < length s then
        (let (r, wid) = DecodeRune (drop start s)
         in if f r then Some start else IndexFunc f s (start + wid))
      else None)"
  by pat_completeness auto
termination
proof (relation "measure (\<lambda>(f, s, start). length s - start)", goal_cases)
  case 1
  then show ?case by simp
next
  case (2 f s start x r wid)
  then have "0 < snd (DecodeRune (drop start s))"
    by (intro DecodeRune_width) simp
  with 2 show ?case by (simp add: prod_eq_iff)
qed

declare IndexFunc.simps [simp del]

section \<open>The grammar parser (parse.go)\<close>

text \<open>
  The error values of the parser; \<open>runeNotFound r\<close> is \<^verbatim>\<open>makeRuneNotFoundError(r)\<close> and
  \<open>numError\<close> the error of \<^verbatim>\<open>strconv.ParseInt\<close>.  A parsing function of the source returns
  a value, a position and an error; the value is \<^verbatim>\<open>nil\<close> (or unused) exactly when the error
  is set, so a result is either \<open>Fail pos err\<close> or \<open>Done value pos\<close>.
\<close>

datatype perr = symbolNotFound | prefixNotFound | unparsedText | runeNotFound nat | numError

datatype 'a pres = Fail nat perr | Done 'a nat

definition parseRune :: "string \<Rightarrow> nat \<Rightarrow> nat \<Rightarrow> nat \<times> perr option" where
  "parseRune data pos r =
     (if length data \<le> pos then (pos, Some (runeNotFound r))
      else
        let (dr, width) = DecodeRune (drop pos data)
        in if dr \<noteq> r then (pos, Some (runeNotFound r)) else (pos + width, None))"

text \<open>\<^verbatim>\<open>strings.HasPrefix\<close>, and the loop over a table that returns at the first key which
  is a prefix of \<open>str\<close>.\<close>

definition HasPrefix :: "string \<Rightarrow> string \<Rightarrow> bool" where
  "HasPrefix s pre = (length pre \<le> length s \<and> take (length pre) s = pre)"

fun firstWithPrefix :: "(string \<times> 'a) list \<Rightarrow> string \<Rightarrow> (string \<times> 'a) option" where
  "firstWithPrefix [] str = None"
| "firstWithPrefix (ks # rest) str =
     (if HasPrefix str (fst ks) then Some ks else firstWithPrefix rest str)"

definition parsePrefix :: "string \<Rightarrow> nat \<Rightarrow> (64 word) pres" where
  "parsePrefix data pos =
     (if length data \<le> pos then Fail pos prefixNotFound
      else
        case firstWithPrefix defaultScales (drop pos data) of
          Some ks \<Rightarrow> Done (snd ks) (pos + length (fst ks))
        | None \<Rightarrow> Fail pos prefixNotFound)"

text \<open>At the end of the input \<^verbatim>\<open>parseSymbol\<close> returns \<^verbatim>\<open>prefixNotFound\<close>, as the source
  does.\<close>

definition parseSymbol :: "string \<Rightarrow> nat \<Rightarrow> pUnit pres" where
  "parseSymbol data pos =
     (if length data \<le> pos then Fail pos prefixNotFound
      else
        case firstWithPrefix defaultUnits (drop pos data) of
          Some ku \<Rightarrow> Done (snd ku) (pos + length (fst ku))
        | None \<Rightarrow> Fail pos symbolNotFound)"

text \<open>\<^verbatim>\<open>parseTerm\<close> keeps the dimension vector of the symbol and the scale of the prefix:
  the \<open>Scale\<close> and the \<open>DimLess\<close> of the table entry are not copied.\<close>

definition parseTerm :: "string \<Rightarrow> nat \<Rightarrow> pUnit pres" where
  "parseTerm data startPos =
     (let (scale, pos) = (case parsePrefix data startPos of
                            Done sc p \<Rightarrow> (sc, p)
                          | Fail p e \<Rightarrow> (0, p))
      in case parseSymbol data pos of
           Done u pos' \<Rightarrow> Done \<lparr>Dim = Dim u, DimLess = [], Scale = scale\<rparr> pos'
         | Fail p e \<Rightarrow>
             (case parseSymbol data startPos of
                Fail p' e' \<Rightarrow> Fail p' e'
              | Done u pos' \<Rightarrow> Done \<lparr>Dim = Dim u, DimLess = [], Scale = 0\<rparr> pos'))"

definition scanToNonSpace :: "goenv \<Rightarrow> string \<Rightarrow> nat \<Rightarrow> bool \<Rightarrow> nat \<times> bool" where
  "scanToNonSpace E data pos hadSpace =
     (if length data \<le> pos then (pos, hadSpace)
      else
        case IndexFunc (\<lambda>r. \<not> IsSpace E r) (drop pos data) 0 of
          None \<Rightarrow> (length data, True)
        | Some idx \<Rightarrow> (pos + idx, hadSpace \<or> 0 < idx))"

text \<open>The loop of \<^verbatim>\<open>scanToNonDigit\<close>, by its index \<open>idx\<close>: a \<^verbatim>\<open>-\<close> is skipped at the first
  position only, and the loop stops at the first rune that is not a digit.\<close>

function scanDigits :: "goenv \<Rightarrow> string \<Rightarrow> nat \<Rightarrow> nat \<Rightarrow> nat" where
  "scanDigits E data pos idx =
     (if idx < length data then
        (let (v, w) = DecodeRune (drop idx data)
         in if idx = pos \<and> v = 0x2D then scanDigits E data pos (idx + w)
            else if \<not> IsDigit E v then idx
            else scanDigits E data pos (idx + w))
      else idx)"
  by pat_completeness auto
termination
proof (relation "measure (\<lambda>(E, data, pos, idx). length data - idx)", goal_cases)
  case 1
  then show ?case by simp
next
  case (2 E data pos idx x v w)
  then have "0 < snd (DecodeRune (drop idx data))"
    by (intro DecodeRune_width) simp
  with 2 show ?case by (simp add: prod_eq_iff)
next
  case (3 E data pos idx x v w)
  then have "0 < snd (DecodeRune (drop idx data))"
    by (intro DecodeRune_width) simp
  with 3 show ?case by (simp add: prod_eq_iff)
qed

declare scanDigits.simps [simp del]

definition scanToNonDigit :: "goenv \<Rightarrow> string \<Rightarrow> nat \<Rightarrow> nat" where
  "scanToNonDigit E data pos = scanDigits E data pos pos"

text \<open>
  \<^verbatim>\<open>strconv.ParseInt(s, 10, 8)\<close>: an optional sign, then one or more of the digits
  \<^verbatim>\<open>0\<close> to \<^verbatim>\<open>9\<close>, with a value from -128 to 127; \<open>None\<close> is any error.
\<close>

definition isDecimal :: "char \<Rightarrow> bool" where
  "isDecimal c = (0x30 \<le> (of_char c :: nat) \<and> (of_char c :: nat) \<le> 0x39)"

definition decimalValue :: "string \<Rightarrow> nat" where
  "decimalValue s = foldl (\<lambda>n c. n * 10 + (of_char c - 0x30)) 0 s"

definition ParseInt8 :: "string \<Rightarrow> int option" where
  "ParseInt8 s0 =
     (if s0 = [] then None
      else
        let neg = (hd s0 = CHR ''-'');
            s = (if hd s0 = CHR ''+'' \<or> hd s0 = CHR ''-'' then tl s0 else s0)
        in if s = [] then None
           else if \<not> list_all isDecimal s then None
           else
             let un = decimalValue s
             in if \<not> neg \<and> 128 \<le> un then None
                else if neg \<and> 128 < un then None
                else Some (if neg then - int un else int un))"

text \<open>When the \<^verbatim>\<open>^\<close> is there but no integer follows, \<^verbatim>\<open>parseExponent\<close> fails at the
  position after the \<^verbatim>\<open>^\<close>.\<close>

definition parseExponent :: "goenv \<Rightarrow> string \<Rightarrow> nat \<Rightarrow> uComponent pres" where
  "parseExponent E data pos0 =
     (case parseRune data pos0 0x5E of
        (pos, Some e) \<Rightarrow> Fail pos e
      | (pos, None) \<Rightarrow>
          (let endPos = scanToNonDigit E data pos
           in case ParseInt8 (take (endPos - pos) (drop pos data)) of
                None \<Rightarrow> Fail pos numError
              | Some i \<Rightarrow> Done (of_int i) endPos))"

text \<open>
  \<^verbatim>\<open>parseUnit\<close>.  Each assignment to \<^verbatim>\<open>pos\<close> of the source is a new name here.  Two
  details of the source: on a failed exponent \<^verbatim>\<open>pos\<close> still takes the position the
  failure reports, and when a unit after white space fails to parse the function returns
  the unit read so far with the position of that failure.
\<close>

function (domintros) parseUnit :: "goenv \<Rightarrow> string \<Rightarrow> nat \<Rightarrow> pUnit pres" where
  "parseUnit E data pos0 =
     (let pos1 = fst (scanToNonSpace E data pos0 False);
          head =
            (case parseRune data pos1 0x28 of
               (pos2, None) \<Rightarrow>
                 (case parseUnit E data pos2 of
                    Fail p e \<Rightarrow> Fail p e
                  | Done u pos3 \<Rightarrow>
                      (case parseRune data pos3 0x29 of
                         (p, Some e) \<Rightarrow> Fail p e
                       | (pos4, None) \<Rightarrow> Done u pos4))
             | (pos2, Some e) \<Rightarrow> parseTerm data pos2)
      in case head of
           Fail p e \<Rightarrow> Fail p e
         | Done u0 pos5 \<Rightarrow>
            (let (pos6, hadSpace0) = scanToNonSpace E data pos5 False;
                 (u, pos, hadSpace) =
                   (case parseExponent E data pos6 of
                      Done ex pos7 \<Rightarrow>
                        (let (pos8, hs) = scanToNonSpace E data pos7 False
                         in (pUnit_Exp u0 ex, pos8, hs))
                    | Fail pos7 e \<Rightarrow> (u0, pos7, hadSpace0))
             in (case parseRune data pos 0x2F of
                  (pos9, None) \<Rightarrow>
                    (case parseUnit E data pos9 of
                       Fail p e \<Rightarrow> Fail p e
                     | Done nextUnit pos10 \<Rightarrow>
                         Done (pUnit_Multiply u (pUnit_Reciprocal nextUnit)) pos10)
                | (pos9, Some e) \<Rightarrow>
                    (case parseRune data pos9 0xB7 of
                       (pos10, None) \<Rightarrow>
                         (case parseUnit E data pos10 of
                            Fail p e \<Rightarrow> Fail p e
                          | Done nextUnit pos11 \<Rightarrow> Done (pUnit_Multiply u nextUnit) pos11)
                     | (pos10, Some e) \<Rightarrow>
                         if hadSpace then
                           (case parseUnit E data pos10 of
                              Done nextUnit pos11 \<Rightarrow> Done (pUnit_Multiply u nextUnit) pos11
                            | Fail pos11 e \<Rightarrow> Done u pos11)
                         else Done u pos10))))"
  by pat_completeness auto


text \<open>Termination: every recursive call is at a position beyond \<open>pos0\<close>, and \<open>pos0\<close> lies
  inside the input whenever a call is made.  The three parts of the function body are named
  for the proof, with the recursive calls as a parameter \<open>r\<close>.\<close>

definition headWith :: "(nat \<Rightarrow> pUnit pres) \<Rightarrow> string \<Rightarrow> nat \<Rightarrow> pUnit pres" where
  "headWith r data pos1 =
     (case parseRune data pos1 0x28 of
        (pos2, None) \<Rightarrow>
          (case r pos2 of
             Fail p e \<Rightarrow> Fail p e
           | Done u pos3 \<Rightarrow>
               (case parseRune data pos3 0x29 of
                  (p, Some e) \<Rightarrow> Fail p e
                | (pos4, None) \<Rightarrow> Done u pos4))
      | (pos2, Some e) \<Rightarrow> parseTerm data pos2)"

definition exponentStep :: "goenv \<Rightarrow> string \<Rightarrow> pUnit \<Rightarrow> nat \<Rightarrow> pUnit \<times> nat \<times> bool" where
  "exponentStep E data u0 pos5 =
     (let (pos6, hadSpace0) = scanToNonSpace E data pos5 False
      in case parseExponent E data pos6 of
           Done ex pos7 \<Rightarrow>
             (let (pos8, hs) = scanToNonSpace E data pos7 False
              in (pUnit_Exp u0 ex, pos8, hs))
         | Fail pos7 e \<Rightarrow> (u0, pos7, hadSpace0))"

definition combineWith ::
    "(nat \<Rightarrow> pUnit pres) \<Rightarrow> string \<Rightarrow> pUnit \<Rightarrow> nat \<Rightarrow> bool \<Rightarrow> pUnit pres" where
  "combineWith r data u pos hadSpace =
     (case parseRune data pos 0x2F of
        (pos9, None) \<Rightarrow>
          (case r pos9 of
             Fail p e \<Rightarrow> Fail p e
           | Done nextUnit pos10 \<Rightarrow>
               Done (pUnit_Multiply u (pUnit_Reciprocal nextUnit)) pos10)
      | (pos9, Some e) \<Rightarrow>
          (case parseRune data pos9 0xB7 of
             (pos10, None) \<Rightarrow>
               (case r pos10 of
                  Fail p e \<Rightarrow> Fail p e
                | Done nextUnit pos11 \<Rightarrow> Done (pUnit_Multiply u nextUnit) pos11)
           | (pos10, Some e) \<Rightarrow>
               if hadSpace then
                 (case r pos10 of
                    Done nextUnit pos11 \<Rightarrow> Done (pUnit_Multiply u nextUnit) pos11
                  | Fail pos11 e \<Rightarrow> Done u pos11)
               else Done u pos10))"

definition posOK :: "nat \<Rightarrow> nat \<Rightarrow> pUnit pres \<Rightarrow> bool" where
  "posOK n pos r = (case r of Done u p \<Rightarrow> pos < p \<and> pos < n | Fail p e \<Rightarrow> pos \<le> p)"

lemma firstWithPrefix_mem: "firstWithPrefix tbl str = Some ks \<Longrightarrow> ks \<in> set tbl \<and> HasPrefix str (fst ks)"
  by (induction tbl) (auto split: if_splits)

lemma parseRune_pos:
  "parseRune data pos r = (p, e) \<Longrightarrow>
     (e = None \<longrightarrow> pos < p \<and> pos < length data \<and> p \<le> length data) \<and> (e \<noteq> None \<longrightarrow> p = pos)"
  using DecodeRune_width [of "drop pos data"] DecodeRune_width_le [of "drop pos data"]
  by (auto simp add: parseRune_def Let_def split: if_splits prod.splits)

lemma parseSymbol_pos:
  "parseSymbol data pos = Done u p \<Longrightarrow> pos < p \<and> pos < length data \<and> p \<le> length data"
  by (auto simp add: parseSymbol_def HasPrefix_def split: if_splits option.splits
      dest!: firstWithPrefix_mem dest: firstKeys_nonempty(1))

lemma parsePrefix_pos:
  "parsePrefix data pos = Done u p \<Longrightarrow> pos < p \<and> pos < length data \<and> p \<le> length data"
  by (auto simp add: parsePrefix_def HasPrefix_def split: if_splits option.splits
      dest!: firstWithPrefix_mem dest: firstKeys_nonempty(2))

lemma parsePrefix_Fail_pos: "parsePrefix data pos = Fail p e \<Longrightarrow> p = pos"
  by (auto simp add: parsePrefix_def split: if_splits option.splits)

lemma parseSymbol_Fail_pos: "parseSymbol data pos = Fail p e \<Longrightarrow> p = pos"
  by (auto simp add: parseSymbol_def split: if_splits option.splits)

lemma parseTerm_pos:
  "parseTerm data pos = Done u p \<Longrightarrow> pos < p \<and> pos < length data \<and> p \<le> length data"
  by (auto simp add: parseTerm_def Let_def split: pres.splits prod.splits
      dest!: parseSymbol_pos parsePrefix_pos parsePrefix_Fail_pos)

lemma parseTerm_Fail_pos: "parseTerm data pos = Fail p e \<Longrightarrow> p = pos"
  by (auto simp add: parseTerm_def Let_def split: pres.splits prod.splits
      dest!: parseSymbol_Fail_pos)


lemma IndexFunc_bounds: "IndexFunc f s start = Some i \<Longrightarrow> start \<le> i \<and> i < length s"
proof (induction f s start rule: IndexFunc.induct)
  case (1 f s start)
  show ?case
  proof (cases "start < length s")
    case False
    with "1.prems" show ?thesis by (simp add: IndexFunc.simps [of f s start])
  next
    case True
    obtain r wid where d: "DecodeRune (drop start s) = (r, wid)" by (cases "DecodeRune (drop start s)")
    show ?thesis
    proof (cases "f r")
      case True
      with \<open>start < length s\<close> d "1.prems" show ?thesis
        by (simp add: IndexFunc.simps [of f s start])
    next
      case False
      with \<open>start < length s\<close> d "1.prems" have "IndexFunc f s (start + wid) = Some i"
        by (simp add: IndexFunc.simps [of f s start])
      with "1.IH" [OF \<open>start < length s\<close> d [symmetric] refl False] show ?thesis by simp
    qed
  qed
qed

lemma scanToNonSpace_pos:
  "scanToNonSpace E data pos h = (p, h') \<Longrightarrow> pos \<le> p \<and> (pos \<le> length data \<longrightarrow> p \<le> length data)"
  by (auto simp add: scanToNonSpace_def split: if_splits option.splits dest!: IndexFunc_bounds)

lemma scanDigits_pos: "idx \<le> scanDigits E data pos idx"
proof (induction E data pos idx rule: scanDigits.induct)
  case (1 E data pos idx)
  show ?case
  proof (cases "idx < length data")
    case False
    then show ?thesis by (simp add: scanDigits.simps [of E data pos idx])
  next
    case True
    obtain v w where d: "DecodeRune (drop idx data) = (v, w)" by (cases "DecodeRune (drop idx data)")
    show ?thesis
      using "1.IH"(1) [OF True d [symmetric] refl] "1.IH"(2) [OF True d [symmetric] refl] True d
      by (subst scanDigits.simps) (auto simp add: Let_def intro: add_leD1)
  qed
qed

lemma parseExponent_pos:
  "parseExponent E data pos = Done ex p \<Longrightarrow> pos \<le> p"
  "parseExponent E data pos = Fail p e \<Longrightarrow> pos \<le> p"
  using scanDigits_pos [of _ E data]
  by (auto simp add: parseExponent_def scanToNonDigit_def Let_def
      split: prod.splits option.splits dest!: parseRune_pos intro: less_imp_le order_trans)

lemma scanToNonSpace_fst: "pos \<le> fst (scanToNonSpace E data pos h)"
  using scanToNonSpace_pos [of E data pos h] by (cases "scanToNonSpace E data pos h") auto

lemma headWith_posOK:
  assumes "\<And>pos2. parseRune data pos1 0x28 = (pos2, None) \<Longrightarrow> posOK (length data) pos2 (r pos2)"
  shows "posOK (length data) pos1 (headWith r data pos1)"
proof (cases "parseRune data pos1 0x28")
  case (Pair pos2 e)
  show ?thesis
  proof (cases e)
    case None
    with Pair assms have "posOK (length data) pos2 (r pos2)" by simp
    moreover from Pair None have "pos1 < pos2" "pos1 < length data"
      using parseRune_pos [of data pos1 "0x28" pos2 e] by auto
    ultimately show ?thesis using Pair None
      by (auto simp add: headWith_def posOK_def split: pres.splits prod.splits option.splits
          dest!: parseRune_pos)
  next
    case (Some a)
    with Pair show ?thesis
      using parseRune_pos [of data pos1 "0x28" pos2 e]
      by (auto simp add: headWith_def posOK_def split: pres.splits
          dest!: parseTerm_pos parseTerm_Fail_pos)
  qed
qed

lemma exponentStep_pos: "exponentStep E data u0 pos5 = (u, pos, hs) \<Longrightarrow> pos5 \<le> pos"
  by (auto simp add: exponentStep_def Let_def split: prod.splits pres.splits
      dest!: scanToNonSpace_pos parseExponent_pos)

lemma combineWith_posOK:
  assumes "\<And>pos9. parseRune data pos 0x2F = (pos9, None) \<Longrightarrow> posOK n pos9 (r pos9)"
    and "\<And>pos9 e pos10. parseRune data pos 0x2F = (pos9, Some e) \<Longrightarrow>
           parseRune data pos9 0xB7 = (pos10, None) \<Longrightarrow> posOK n pos10 (r pos10)"
    and "\<And>pos9 e pos10 e'. parseRune data pos 0x2F = (pos9, Some e) \<Longrightarrow>
           parseRune data pos9 0xB7 = (pos10, Some e') \<Longrightarrow> hs \<Longrightarrow> posOK n pos10 (r pos10)"
  shows "case combineWith r data u pos hs of Done u' p \<Rightarrow> pos \<le> p | Fail p e \<Rightarrow> pos \<le> p"
proof (cases "parseRune data pos 0x2F")
  case (Pair pos9 e9)
  note p9 = parseRune_pos [OF Pair]
  show ?thesis
  proof (cases e9)
    case None
    with Pair assms(1) have "posOK n pos9 (r pos9)" by simp
    with Pair None p9 show ?thesis
      by (auto simp add: combineWith_def posOK_def split: pres.splits)
  next
    case (Some a)
    obtain pos10 e10 where q: "parseRune data pos9 0xB7 = (pos10, e10)"
      by (cases "parseRune data pos9 0xB7")
    note p10 = parseRune_pos [OF q]
    show ?thesis
    proof (cases e10)
      case None
      with Pair Some q assms(2) have "posOK n pos10 (r pos10)" by simp
      with Pair Some q None p9 p10 show ?thesis
        by (auto simp add: combineWith_def posOK_def split: pres.splits)
    next
      case (Some b)
      show ?thesis
      proof (cases hs)
        case True
        with Pair \<open>e9 = Some a\<close> q Some assms(3) have "posOK n pos10 (r pos10)" by simp
        with Pair \<open>e9 = Some a\<close> q Some p9 p10 True show ?thesis
          by (auto simp add: combineWith_def posOK_def split: pres.splits)
      next
        case False
        with Pair \<open>e9 = Some a\<close> q Some p9 p10 show ?thesis
          by (auto simp add: combineWith_def)
      qed
    qed
  qed
qed

lemma parseUnit_psimps':
  "parseUnit_dom (E, data, pos0) \<Longrightarrow>
   parseUnit E data pos0 =
     (case headWith (parseUnit E data) data (fst (scanToNonSpace E data pos0 False)) of
        Fail p e \<Rightarrow> Fail p e
      | Done u0 pos5 \<Rightarrow>
          (case exponentStep E data u0 pos5 of
             (u, pos, hadSpace) \<Rightarrow> combineWith (parseUnit E data) data u pos hadSpace))"
  by (simp add: parseUnit.psimps headWith_def exponentStep_def combineWith_def Let_def
      split: prod.splits pres.splits cong: pres.case_cong)


lemma parseUnit_posOK_partial:
  "parseUnit_dom (E, data, pos0) \<Longrightarrow> posOK (length data) pos0 (parseUnit E data pos0)"
proof (induction rule: parseUnit.pinduct)
  case (1 E data pos0)
  let ?r = "parseUnit E data"
  define pos1 where "pos1 = fst (scanToNonSpace E data pos0 False)"
  have p01: "pos0 \<le> pos1" by (simp add: pos1_def scanToNonSpace_fst)
  have ih1: "posOK (length data) pos2 (?r pos2)" if "parseRune data pos1 0x28 = (pos2, None)" for pos2
    using "1.IH"(1) [OF pos1_def that [symmetric] refl] .
  have hd: "posOK (length data) pos1 (headWith ?r data pos1)"
    by (rule headWith_posOK) (rule ih1)
  have eq: "parseUnit E data pos0 =
     (case headWith ?r data pos1 of
        Fail p e \<Rightarrow> Fail p e
      | Done u0 pos5 \<Rightarrow>
          (case exponentStep E data u0 pos5 of
             (u, pos, hadSpace) \<Rightarrow> combineWith ?r data u pos hadSpace))"
    unfolding pos1_def by (rule parseUnit_psimps' [OF "1.hyps"])
  show ?case
  proof (cases "headWith ?r data pos1")
    case (Fail p e)
    with hd p01 eq show ?thesis by (simp add: posOK_def)
  next
    case (Done u0 pos5)
    with hd have p15: "pos1 < pos5" "pos1 < length data" by (simp_all add: posOK_def)
    obtain u pos hs where es: "exponentStep E data u0 pos5 = (u, pos, hs)"
      by (cases "exponentStep E data u0 pos5")
    have p5: "pos5 \<le> pos" using exponentStep_pos [OF es] .
    obtain pos6 hs0 where sc: "scanToNonSpace E data pos5 False = (pos6, hs0)"
      by (cases "scanToNonSpace E data pos5 False")
    have head_raw: "(case parseRune data pos1 40 of
          (pos2, None) \<Rightarrow>
            (case parseUnit E data pos2 of Fail x xa \<Rightarrow> Fail x xa
            | Done u pos3 \<Rightarrow>
                (case parseRune data pos3 41 of (p, None) \<Rightarrow> Done u p
                | (p, Some xa) \<Rightarrow> Fail p xa))
          | (pos2, Some e) \<Rightarrow> parseTerm data pos2) = Done u0 pos5"
      using Done by (simp add: headWith_def cong: pres.case_cong)
    have es_raw: "(u, pos, hs) =
         (case parseExponent E data pos6 of Fail pos7 e \<Rightarrow> (u0, pos7, hs0)
          | Done ex pos7 \<Rightarrow>
              let (pos8, hs) = scanToNonSpace E data pos7 False
              in (pUnit_Exp u0 ex, pos8, hs))"
      using es sc by (simp add: exponentStep_def)
    have ih2: "posOK (length data) pos9 (?r pos9)" if "parseRune data pos 0x2F = (pos9, None)" for pos9
      using "1.IH"(2) [OF pos1_def refl head_raw refl sc [symmetric] refl es_raw refl
          that [symmetric] refl] .
    have ih3: "posOK (length data) pos10 (?r pos10)"
      if "parseRune data pos 0x2F = (pos9, Some e)" "parseRune data pos9 0xB7 = (pos10, None)"
      for pos9 e pos10
      using "1.IH"(3) [OF pos1_def refl head_raw refl sc [symmetric] refl es_raw refl
          that(1) [symmetric] refl that(2) [symmetric] refl] .
    have ih4: "posOK (length data) pos10 (?r pos10)"
      if "parseRune data pos 0x2F = (pos9, Some e)" "parseRune data pos9 0xB7 = (pos10, Some e')" "hs"
      for pos9 e pos10 e'
      using "1.IH"(4) [OF pos1_def refl head_raw refl sc [symmetric] refl es_raw refl
          that(1) [symmetric] refl that(2) [symmetric] refl that(3)] .
    have "case combineWith ?r data u pos hs of Done u' p \<Rightarrow> pos \<le> p | Fail p e \<Rightarrow> pos \<le> p"
      by (rule combineWith_posOK [OF ih2 ih3 ih4])
    with eq Done es p01 p15 p5 show ?thesis
      by (auto simp add: posOK_def split: pres.splits)
  qed
qed


lemma tail_call_decreases:
  assumes dom: "\<And>xa y. (xa, y) = parseRune data x 40 \<Longrightarrow> y = None \<Longrightarrow> parseUnit_dom (E, data, xa)"
    and x: "x = fst (scanToNonSpace E data pos0 False)"
    and head: "headWith (parseUnit E data) data x = Done u0 pos5"
    and es: "exponentStep E data u0 pos5 = (u, pos, hs)"
    and q: "pos \<le> q"
  shows "((E, data, q), E, data, pos0) \<in> measure (\<lambda>(E, data, pos). length data - pos)"
proof -
  have "posOK (length data) x (headWith (parseUnit E data) data x)"
    by (rule headWith_posOK) (rule parseUnit_posOK_partial, rule dom, simp_all)
  with head have "x < pos5" "x < length data" by (simp_all add: posOK_def)
  moreover have "pos0 \<le> x" by (simp add: x scanToNonSpace_fst)
  moreover have "pos5 \<le> pos" using exponentStep_pos [OF es] .
  ultimately show ?thesis using q by simp
qed

termination parseUnit
proof (relation "measure (\<lambda>(E, data, pos). length data - pos)", goal_cases)
  case 1
  show ?case by simp
next
  case (2 E data pos0 x xa y)
  from 2(2) [symmetric] 2(3) have "x < xa" "x < length data"
    using parseRune_pos [of data x 40 xa y] by simp_all
  moreover have "pos0 \<le> x" by (simp add: 2(1) scanToNonSpace_fst)
  ultimately show ?case by simp
next
  case (3 E data pos0 x xa x21 x22 xb xc y xd xe ya xf yb xg yc)
  have head: "headWith (parseUnit E data) data x = Done x21 x22"
    using 3(2,3) by (simp add: headWith_def cong: pres.case_cong)
  have es: "exponentStep E data x21 x22 = (xe, xf, yb)"
  proof -
    have sc: "scanToNonSpace E data x22 False = (xc, y)" using 3(4,5) by simp
    have "xd = (xe, xf, yb)" using 3(7,8) by simp
    with sc 3(6) show ?thesis by (simp add: exponentStep_def)
  qed
  have "xf \<le> xg" using parseRune_pos [OF 3(9) [symmetric]] 3(10) by simp
  from tail_call_decreases [OF 3(11) 3(1) head es this] show ?case .
next
  case (4 E data pos0 x xa x21 x22 xb xc y xd xe ya xf yb xg yc x2 xh yd)
  have head: "headWith (parseUnit E data) data x = Done x21 x22"
    using 4(2,3) by (simp add: headWith_def cong: pres.case_cong)
  have es: "exponentStep E data x21 x22 = (xe, xf, yb)"
  proof -
    have sc: "scanToNonSpace E data x22 False = (xc, y)" using 4(4,5) by simp
    have "xd = (xe, xf, yb)" using 4(7,8) by simp
    with sc 4(6) show ?thesis by (simp add: exponentStep_def)
  qed
  have "xf \<le> xh"
    using parseRune_pos [OF 4(9) [symmetric]] parseRune_pos [OF 4(11) [symmetric]] 4(10,12)
    by simp
  from tail_call_decreases [OF 4(13) 4(1) head es this] show ?case .
next
  case (5 E data pos0 x xa x21 x22 xb xc y xd xe ya xf yb xg yc x2 xh yd x2a)
  have head: "headWith (parseUnit E data) data x = Done x21 x22"
    using 5(2,3) by (simp add: headWith_def cong: pres.case_cong)
  have es: "exponentStep E data x21 x22 = (xe, xf, yb)"
  proof -
    have sc: "scanToNonSpace E data x22 False = (xc, y)" using 5(4,5) by simp
    have "xd = (xe, xf, yb)" using 5(7,8) by simp
    with sc 5(6) show ?thesis by (simp add: exponentStep_def)
  qed
  have "xf \<le> xh"
    using parseRune_pos [OF 5(9) [symmetric]] parseRune_pos [OF 5(11) [symmetric]] 5(10,12)
    by simp
  from tail_call_decreases [OF 5(14) 5(1) head es this] show ?case .
qed

declare parseUnit.simps [simp del]

text \<open>
  The first half of \<open>parseUnit\<close>, up to the point where it looks for \<^verbatim>\<open>/\<close>, the centre
  dot or white space: a term or a parenthesised unit with its optional exponent, the
  position after it and whether white space was skipped there.  This is an operand of a
  division or a product.
\<close>

definition operand :: "goenv \<Rightarrow> string \<Rightarrow> nat \<Rightarrow> (pUnit \<times> bool) pres" where
  "operand E data pos0 =
     (case headWith (parseUnit E data) data (fst (scanToNonSpace E data pos0 False)) of
        Fail p e \<Rightarrow> Fail p e
      | Done u0 pos5 \<Rightarrow>
          (case exponentStep E data u0 pos5 of (u, pos, hadSpace) \<Rightarrow> Done (u, hadSpace) pos))"

section \<open>Measurements and the conversion engine (unit.go, parse.go)\<close>

text \<open>
  \<^verbatim>\<open>type measure struct { Value float64; Unit string; unit *pUnit }\<close>.  The functions of
  the package hand out pointers to such structs and \<^verbatim>\<open>Reciprocal\<close> assigns to the fields
  of one, so the structs live in a heap: a list of cells, a pointer being an index.  A
  \<^verbatim>\<open>Measurement\<close> is an interface value: \<^verbatim>\<open>nil\<close>, a \<^verbatim>\<open>*measure\<close>, or a value of a type
  of the caller (as the JavaScript binding's), of which the package only sees what
  \<^verbatim>\<open>Quantity()\<close> and \<^verbatim>\<open>MeasurementUnit()\<close> return.
\<close>

record measure =
  Value :: float64
  Unit :: string
  unit :: pUnit

datatype Measurement = Nil | Ptr nat | Foreign float64 string

type_synonym heap = "measure list"

text \<open>\<open>parseError data pos err\<close> is \<^verbatim>\<open>makeParseError(data, pos, err)\<close>, whose message quotes
  the input before and after \<open>pos\<close>.\<close>

datatype error = parseError string nat perr | divideByZero | wrongDimension | underflow | overflow

text \<open>A call returns its results and the heap, or panics (a method call on \<^verbatim>\<open>nil\<close>).\<close>

datatype 'a outcome = Panic | Ret 'a heap

text \<open>\<^verbatim>\<open>zeroValue\<close> is allocated once, when the package is initialised: cell 0 of the
  initial heap.\<close>

definition zeroValue :: nat where "zeroValue = 0"

definition zeroMeasure :: measure where
  "zeroMeasure = \<lparr>Value = f64_zero, Unit = [], unit = theZero\<rparr>"

definition initHeap :: heap where "initHeap = [zeroMeasure]"

text \<open>\<^verbatim>\<open>&measure{...}\<close> allocates a new cell.\<close>

definition new :: "measure \<Rightarrow> heap \<Rightarrow> nat \<times> heap" where
  "new m h = (length h, h @ [m])"

text \<open>The two methods of the interface; \<open>None\<close> is the panic of a call on \<^verbatim>\<open>nil\<close>.\<close>

definition Quantity :: "heap \<Rightarrow> Measurement \<Rightarrow> float64 option" where
  "Quantity h m =
     (case m of
        Nil \<Rightarrow> None
      | Ptr a \<Rightarrow> (if a < length h then Some (Value (h ! a)) else None)
      | Foreign q u \<Rightarrow> Some q)"

definition MeasurementUnit :: "heap \<Rightarrow> Measurement \<Rightarrow> string option" where
  "MeasurementUnit h m =
     (case m of
        Nil \<Rightarrow> None
      | Ptr a \<Rightarrow> (if a < length h then Some (Unit (h ! a)) else None)
      | Foreign q u \<Rightarrow> Some u)"

text \<open>\<^verbatim>\<open>Parse\<close>.  For the empty unit string the struct literal of the source sets only
  \<^verbatim>\<open>unit\<close>; \<^verbatim>\<open>Value\<close> and \<^verbatim>\<open>Unit\<close> keep their zero values.\<close>

definition Parse :: "goenv \<Rightarrow> float64 \<Rightarrow> string \<Rightarrow> heap \<Rightarrow> (Measurement \<times> error option) \<times> heap" where
  "Parse E quantity unitString h =
     (let data = unitString
      in if length data = 0 then
           (let (a, h') = new \<lparr>Value = f64_zero, Unit = [], unit = theZero\<rparr> h
            in ((Ptr a, None), h'))
         else
           case parseUnit E data 0 of
             Fail pos err \<Rightarrow> ((Nil, Some (parseError data pos err)), h)
           | Done u pos0 \<Rightarrow>
               (let pos = fst (scanToNonSpace E data pos0 False)
                in if pos \<noteq> length data then ((Nil, Some (parseError data pos unparsedText)), h)
                   else
                     (let (a, h') = new \<lparr>Value = quantity, Unit = unitString, unit = u\<rparr> h
                      in ((Ptr a, None), h'))))"

text \<open>\<^verbatim>\<open>parse\<close>: a \<^verbatim>\<open>*measure\<close> is returned as it is (the same pointer), anything else is
  parsed from its quantity and unit text into a new cell.\<close>

definition parse :: "goenv \<Rightarrow> Measurement \<Rightarrow> heap \<Rightarrow> (nat option \<times> error option) outcome" where
  "parse E m h =
     (case m of
        Ptr a \<Rightarrow> Ret (Some a, None) h
      | Nil \<Rightarrow> Panic
      | Foreign q u \<Rightarrow>
          (case Parse E q u h of
             ((m', Some err), h') \<Rightarrow> Ret (None, Some err) h'
           | ((Ptr a, None), h') \<Rightarrow> Ret (Some a, None) h'
           | ((_, None), h') \<Rightarrow> Panic))"

text \<open>\<^verbatim>\<open>Reciprocal\<close>: the three assignments go through the pointer \<^verbatim>\<open>parse\<close> returned.\<close>

definition Reciprocal :: "goenv \<Rightarrow> Measurement \<Rightarrow> heap \<Rightarrow> (Measurement \<times> error option) outcome" where
  "Reciprocal E mm h =
     (case parse E mm h of
        Panic \<Rightarrow> Panic
      | Ret (m, Some err) h1 \<Rightarrow> Ret (Ptr zeroValue, Some err) h1
      | Ret (None, None) h1 \<Rightarrow> Panic
      | Ret (Some a, None) h1 \<Rightarrow>
          if length h1 \<le> a then Panic
          else if f64_isZero (Value (h1 ! a)) then Ret (Ptr zeroValue, Some divideByZero) h1
          else
            (let h2 = h1[a := (h1 ! a)\<lparr>Value := f64_div f64_one (Value (h1 ! a))\<rparr>];
                 h3 = h2[a := (h2 ! a)\<lparr>unit := pUnit_Reciprocal (unit (h2 ! a))\<rparr>];
                 h4 = (if length (Unit (h3 ! a)) \<noteq> 0
                       then h3[a := (h3 ! a)\<lparr>Unit := ''('' @ Unit (h3 ! a) @ '')^-1''\<rparr>]
                       else h3)
             in Ret (Ptr a, None) h4))"

text \<open>The loop of \<^verbatim>\<open>New\<close> over \<^verbatim>\<open>ms\<close>, with the running \<^verbatim>\<open>value\<close> and \<^verbatim>\<open>unit\<close>.\<close>

fun multiplyAll ::
    "goenv \<Rightarrow> Measurement list \<Rightarrow> float64 \<Rightarrow> pUnit \<Rightarrow> heap \<Rightarrow> (error option \<times> float64 \<times> pUnit) outcome" where
  "multiplyAll E [] v u h = Ret (None, v, u) h"
| "multiplyAll E (mm # ms) v u h =
     (case parse E mm h of
        Panic \<Rightarrow> Panic
      | Ret (m, Some err) h1 \<Rightarrow> Ret (Some err, v, u) h1
      | Ret (None, None) h1 \<Rightarrow> Panic
      | Ret (Some a, None) h1 \<Rightarrow>
          if length h1 \<le> a then Panic
          else multiplyAll E ms (f64_mul v (Value (h1 ! a))) (pUnit_Multiply u (unit (h1 ! a))) h1)"

definition New :: "goenv \<Rightarrow> string \<Rightarrow> Measurement \<Rightarrow> Measurement list \<Rightarrow> heap \<Rightarrow> (Measurement \<times> error option) outcome" where
  "New E unitString m0 ms h =
     (case parse E m0 h of
        Panic \<Rightarrow> Panic
      | Ret (m, Some err) h1 \<Rightarrow> Ret (Ptr zeroValue, Some err) h1
      | Ret (None, None) h1 \<Rightarrow> Panic
      | Ret (Some a, None) h1 \<Rightarrow>
          if length h1 \<le> a then Panic
          else
            (case multiplyAll E ms (Value (h1 ! a)) (unit (h1 ! a)) h1 of
               Panic \<Rightarrow> Panic
             | Ret (Some err, v, u) h2 \<Rightarrow> Ret (Ptr zeroValue, Some err) h2
             | Ret (None, v, u) h2 \<Rightarrow>
                 (case Parse E f64_zero unitString h2 of
                    ((targetM, Some err), h3) \<Rightarrow> Ret (Ptr zeroValue, Some err) h3
                  | ((Ptr t, None), h3) \<Rightarrow>
                      if length h3 \<le> t then Panic
                      else if pUnit_product (unit (h3 ! t)) \<noteq> pUnit_product u
                        then Ret (Ptr zeroValue, Some wrongDimension) h3
                      else
                        (let scaleDiff = Scale u - Scale (unit (h3 ! t));
                             v' = f64_mul v (Pow10 E (sint scaleDiff))
                         in if f64_isZero v' then Ret (Ptr zeroValue, Some underflow) h3
                            else if f64_IsInf v' then Ret (Ptr zeroValue, Some overflow) h3
                            else
                              (let (r, h4) = new \<lparr>Value = v', Unit = unitString, unit = u\<rparr> h3
                               in Ret (Ptr r, None) h4))
                  | ((_, None), h3) \<Rightarrow> Panic)))"

section \<open>Properties of the parsed-unit algebra\<close>

lemma upt_numDim: "[0..<numDim] = [0, 1, 2, 3, 4, 5, 6, 7]"
  by (simp add: numDim_def upt_rec)

lemma addInto_pt_add: "addInto p q = pt_add p q"
  by (cases p; cases q) (simp add: addInto_def upt_numDim)

lemma pt_add_zero_left: "pt_add zeroPoint p = p"
  by (cases p) (simp add: zeroPoint_def)

lemma product_no_DimLess: "DimLess a = [] \<Longrightarrow> pUnit_product a = Dim a"
  by (simp add: pUnit_product_def addInto_pt_add pt_add_zero_left)

lemma negate_loop: "fold (\<lambda>idx r. pt_set r idx (- pt_get p idx)) [0..<numDim] p = pt_neg p"
  by (cases p) (simp add: upt_numDim)

lemma scale_loop: "fold (\<lambda>idx r. pt_set r idx (e * pt_get p idx)) [0..<numDim] p = pt_scale e p"
  by (cases p) (simp add: upt_numDim)

text \<open>
  Claim C8.  For all parsed units \<open>a\<close> and \<open>b\<close>: \<open>Multiply(a, b)\<close> has the dimension
  vector \<open>Product(a) + Product(b)\<close> (componentwise, in \<^verbatim>\<open>int8\<close> arithmetic), the scale
  \<open>a.scale + b.scale\<close> and an empty list of dimensionless factors; \<open>Reciprocal(a)\<close> has the
  dimension vector \<open>-Product(a)\<close> and the scale \<open>-a.scale\<close>; \<open>Exp(a, e)\<close> has the
  dimension vector \<open>e * Product(a)\<close> and the scale \<open>e * a.scale\<close>.  In each case the
  dimension vector is both the \<open>Dim\<close> field and the \<open>Product\<close> of the result.
\<close>

theorem algebra_operations:
  "Dim (pUnit_Multiply a b) = pt_add (pUnit_product a) (pUnit_product b) \<and>
   pUnit_product (pUnit_Multiply a b) = pt_add (pUnit_product a) (pUnit_product b) \<and>
   Scale (pUnit_Multiply a b) = Scale a + Scale b \<and>
   DimLess (pUnit_Multiply a b) = [] \<and>
   Dim (pUnit_Reciprocal a) = pt_neg (pUnit_product a) \<and>
   pUnit_product (pUnit_Reciprocal a) = pt_neg (pUnit_product a) \<and>
   Scale (pUnit_Reciprocal a) = - Scale a \<and>
   Dim (pUnit_Exp a e) = pt_scale e (pUnit_product a) \<and>
   pUnit_product (pUnit_Exp a e) = pt_scale e (pUnit_product a) \<and>
   Scale (pUnit_Exp a e) = scast e * Scale a"
  by (simp add: pUnit_Multiply_def pUnit_Reciprocal_def pUnit_Exp_def Let_def
      addInto_pt_add negate_loop scale_loop product_no_DimLess)

section \<open>Evaluating the model\<close>

text \<open>Equations that let the simplifier run the model on a concrete input.\<close>

lemma bitlen_numeral [simp]:
  "bitlen 0 = 0"
  "bitlen (Suc 0) = 1"
  "bitlen (numeral Num.One) = 1"
  "bitlen (numeral (Num.Bit0 n)) = Suc (bitlen (numeral n))"
  "bitlen (numeral (Num.Bit1 n)) = Suc (bitlen (numeral n))"
proof -
  show "bitlen 0 = 0" by (simp add: bitlen.simps)
  show s: "bitlen (Suc 0) = 1" by (simp add: bitlen.simps [of "Suc 0"] bitlen.simps [of 0])
  show "bitlen (numeral Num.One) = 1" using s by simp
  have "numeral (Num.Bit0 n) div (2::nat) = numeral n" by simp
  then show "bitlen (numeral (Num.Bit0 n)) = Suc (bitlen (numeral n))"
    by (subst bitlen.simps) simp
  have "numeral (Num.Bit1 n) div (2::nat) = numeral n" by simp
  then show "bitlen (numeral (Num.Bit1 n)) = Suc (bitlen (numeral n))"
    by (subst bitlen.simps) simp
qed

lemma parseUnit_unfold:
  "parseUnit E data pos0 =
     (case headWith (parseUnit E data) data (fst (scanToNonSpace E data pos0 False)) of
        Fail p e \<Rightarrow> Fail p e
      | Done u0 pos5 \<Rightarrow>
          (case exponentStep E data u0 pos5 of
             (u, pos, hadSpace) \<Rightarrow> combineWith (parseUnit E data) data u pos hadSpace))"
  by (subst parseUnit.simps)
     (simp add: headWith_def exponentStep_def combineWith_def Let_def
      split: prod.splits pres.splits cong: pres.case_cong)

lemma headWith_if:
  "headWith r data pos1 =
     (if snd (parseRune data pos1 0x28) = None then
        (case r (fst (parseRune data pos1 0x28)) of
           Fail p e \<Rightarrow> Fail p e
         | Done u pos3 \<Rightarrow>
             (if snd (parseRune data pos3 0x29) = None then Done u (fst (parseRune data pos3 0x29))
              else Fail (fst (parseRune data pos3 0x29)) (the (snd (parseRune data pos3 0x29)))))
      else parseTerm data (fst (parseRune data pos1 0x28)))"
  by (auto simp add: headWith_def split: prod.splits option.splits pres.splits)

lemma combineWith_if:
  "combineWith r data u pos hadSpace =
     (if snd (parseRune data pos 0x2F) = None then
        (case r (fst (parseRune data pos 0x2F)) of
           Fail p e \<Rightarrow> Fail p e
         | Done nextUnit pos10 \<Rightarrow> Done (pUnit_Multiply u (pUnit_Reciprocal nextUnit)) pos10)
      else if snd (parseRune data (fst (parseRune data pos 0x2F)) 0xB7) = None then
        (case r (fst (parseRune data (fst (parseRune data pos 0x2F)) 0xB7)) of
           Fail p e \<Rightarrow> Fail p e
         | Done nextUnit pos11 \<Rightarrow> Done (pUnit_Multiply u nextUnit) pos11)
      else if hadSpace then
        (case r (fst (parseRune data (fst (parseRune data pos 0x2F)) 0xB7)) of
           Done nextUnit pos11 \<Rightarrow> Done (pUnit_Multiply u nextUnit) pos11
         | Fail pos11 e \<Rightarrow> Done u pos11)
      else Done u (fst (parseRune data (fst (parseRune data pos 0x2F)) 0xB7)))"
  by (auto simp add: combineWith_def split: prod.splits option.splits pres.splits)

lemmas f64_eval = f64_def roundF64_def math_Pow10_def f64_zero_def f64_one_def Let_def

lemmas parser_eval = parseUnit_unfold headWith_if combineWith_if exponentStep_def
  Let_def parseRune_def DecodeRune_def byte_def
  scanToNonSpace_def IndexFunc.simps IsSpace_def parseTerm_def parsePrefix_def parseSymbol_def
  HasPrefix_def parseExponent_def scanToNonDigit_def scanDigits.simps IsDigit_def
  ParseInt8_def isDecimal_def decimalValue_def defaultScales_eq defaultUnits_eq
  str_mu_def str_Omega_def str_degC_def str_celsius_def RuneError_def

lemmas heap_eval = Parse_def parse_def Reciprocal_def New_def new_def initHeap_def
  zeroMeasure_def zeroValue_def Quantity_def MeasurementUnit_def stdEnv_def theZero_def

lemmas algebra_eval = pUnit_Multiply_def pUnit_Reciprocal_def pUnit_Exp_def pUnit_product_def
  addInto_def upt_numDim zeroPoint_def

end
